theory Spec2Isabelle
  imports Main "HOL-Library.Sublist" "HOL-Library.AList"
begin

section \<open>Strings\<close>

text \<open>
  Python strings are modelled as \<^typ>\<open>string\<close>. The operators the handlers use are
  \<^verbatim>\<open>sub in s\<close> (a contiguous substring, \<^const>\<open>sublist\<close>), \<^verbatim>\<open>s.lower()\<close> and string
  concatenation. \<^verbatim>\<open>lower\<close> maps the letters A to Z to a to z and leaves every other
  character as it is (the machine names a platform reports are ASCII).
\<close>

definition lower_char :: "char \<Rightarrow> char" where
  "lower_char c =
     (let n = (of_char c :: nat) in if 65 \<le> n \<and> n \<le> 90 then char_of (n + 32) else c)"

definition lower :: "string \<Rightarrow> string" where
  "lower s = map lower_char s"

text \<open>\<^verbatim>\<open>s.endswith(t)\<close> is \<^term>\<open>suffix t s\<close>.\<close>

section \<open>Exceptions\<close>

text \<open>
  An exception is its class and, where the program or the archive reader gives it one, its
  message. The text of an operating-system error and of \<^verbatim>\<open>shutil.Error\<close> is made of the
  error number, the system's wording and the file names as Python prints them; that text
  is not modelled, so these exceptions are their class only and \<open>str\<close>, Python's
  \<^verbatim>\<open>str(e)\<close>, gives no text for them. \<open>InstallFailed e\<close> is the
  \<^verbatim>\<open>RuntimeError\<close> that \<^verbatim>\<open>install\<close> raises for such an \<open>e\<close>: its message is
  \<^verbatim>\<open>Failed to install FFmpeg: \<close> followed by the text of \<open>e\<close>.
\<close>

datatype exn =
    RuntimeError string
  | InstallFailed exn
  | FileNotFoundError
  | FileExistsError
  | NotADirectoryError
  | IsADirectoryError
  | ShutilError
  | ArchiveError string

fun str :: "exn \<Rightarrow> string option" where
  "str (RuntimeError m) = Some m"
| "str (ArchiveError m) = Some m"
| "str (InstallFailed e) = None"
| "str FileNotFoundError = None"
| "str FileExistsError = None"
| "str NotADirectoryError = None"
| "str IsADirectoryError = None"
| "str ShutilError = None"

section \<open>The download URL\<close>

text \<open>
  \<^verbatim>\<open>get_download_url\<close> reads \<^verbatim>\<open>platform.machine()\<close>; the model takes that string
  as its argument. \<^verbatim>\<open>LinuxHandler\<close> lower-cases it and accepts two spellings of
  each architecture; \<^verbatim>\<open>MacOSHandler\<close> compares the string as it is with
  \<^verbatim>\<open>x86_64\<close> and \<^verbatim>\<open>arm64\<close>.
\<close>

definition base_url :: string where
  "base_url = ''https://github.com/BtbN/FFmpeg-Builds/releases/download/latest''"

definition linux_get_download_url :: "string \<Rightarrow> exn + string" where
  "linux_get_download_url machine =
     (let arch = lower machine in
      if arch \<in> set [''x86_64'', ''amd64'']
      then Inr (base_url @ ''/ffmpeg-master-latest-linux64-gpl-shared.tar.xz'')
      else if arch \<in> set [''aarch64'', ''arm64'']
      then Inr (base_url @ ''/ffmpeg-master-latest-linuxarm64-gpl-shared.tar.xz'')
      else Inl (RuntimeError (''Unsupported Linux architecture: '' @ arch)))"

definition macos_get_download_url :: "string \<Rightarrow> exn + string" where
  "macos_get_download_url machine =
     (let arch = machine in
      if arch = ''x86_64''
      then Inr ''https://github.com/ColorsWind/FFmpeg-macOS/releases/download/n5.0.1-patch3/FFmpeg_shared-n5.0.1-OSX-x86_64.zip''
      else if arch = ''arm64''
      then Inr ''https://github.com/ColorsWind/FFmpeg-macOS/releases/download/n5.0.1-patch3/FFmpeg-shared-n5.0.1-OSX-arm64.zip''
      else Inl (RuntimeError (''Unsupported macOS architecture: '' @ arch)))"

section \<open>Selecting archive members\<close>

text \<open>
  Both \<^verbatim>\<open>install\<close> methods keep a member when
  \<^verbatim>\<open>"bin/" in name or "lib/" in name\<close>. A member is modelled by its name.
\<close>

definition selected :: "string \<Rightarrow> bool" where
  "selected name \<longleftrightarrow> sublist ''bin/'' name \<or> sublist ''lib/'' name"

text \<open>The Linux loop that collects \<^verbatim>\<open>members\<close>.\<close>

fun collect_members :: "string list \<Rightarrow> string list \<Rightarrow> string list" where
  "collect_members members [] = members"
| "collect_members members (member # rest) =
     (if selected member then collect_members (members @ [member]) rest
      else collect_members members rest)"

section \<open>Checking an installation\<close>

text \<open>
  \<^verbatim>\<open>check_installed\<close> asks the host three things: whether a path exists
  (\<^verbatim>\<open>os.path.exists\<close>), whether it may be executed (\<^verbatim>\<open>os.access(p, os.X_OK)\<close>), and
  what \<^verbatim>\<open>subprocess.run(argv, stdout=PIPE, stderr=PIPE, timeout=5)\<close> does: it returns
  the exit code, or raises \<^verbatim>\<open>TimeoutExpired\<close> (a \<^verbatim>\<open>SubprocessError\<close>) after five
  seconds, or raises an \<^verbatim>\<open>OSError\<close> when the program cannot be started (no such
  file, no permission to execute it). What is printed is not modelled.
\<close>

datatype run_exn = TimeoutExpired | LaunchOSError

type_synonym run_result = "run_exn + int"

record host =
  path_exists :: "string \<Rightarrow> bool"
  access_x :: "string \<Rightarrow> bool"
  run :: "string list \<Rightarrow> run_result"

text \<open>\<^verbatim>\<open>except (subprocess.SubprocessError, OSError)\<close>.\<close>

fun caught :: "run_exn \<Rightarrow> bool" where
  "caught TimeoutExpired = True"
| "caught LaunchOSError = True"

text \<open>\<^verbatim>\<open>os.path.join(a, b)\<close> of \<^verbatim>\<open>posixpath\<close>, for two arguments.\<close>

definition path_join :: "string \<Rightarrow> string \<Rightarrow> string" where
  "path_join a b =
     (if prefix ''/'' b then b
      else if a = [] \<or> suffix ''/'' a then a @ b
      else a @ ''/'' @ b)"

definition binaries :: "string list" where
  "binaries = [''ffmpeg'', ''ffprobe'', ''ffplay'']"

text \<open>
  The health loop: run each command with \<^verbatim>\<open>-version\<close>, return \<^verbatim>\<open>False\<close> at the
  first non-zero exit code or caught exception, \<^verbatim>\<open>True\<close> after the last one. An
  exception that the \<^verbatim>\<open>except\<close> clause does not catch would leave the function.
\<close>

fun health_loop :: "host \<Rightarrow> string list \<Rightarrow> run_exn + bool" where
  "health_loop h [] = Inr True"
| "health_loop h (cmd # cmds) =
     (case run h [cmd, ''-version''] of
        Inr returncode \<Rightarrow> if returncode \<noteq> 0 then Inr False else health_loop h cmds
      | Inl e \<Rightarrow> if caught e then Inr False else Inl e)"

definition linux_check_installed :: "host \<Rightarrow> string option \<Rightarrow> run_exn + bool" where
  "linux_check_installed h path =
     (case path of
        None \<Rightarrow> Inr False
      | Some p \<Rightarrow>
          if p = [] then Inr False
          else
            let missing = filter (\<lambda>binary. \<not> path_exists h (path_join p binary)) binaries in
            if missing \<noteq> [] then Inr False
            else health_loop h (map (path_join p) binaries))"

definition global_check :: "host \<Rightarrow> run_exn + bool" where
  "global_check h = health_loop h binaries"

definition macos_check_installed :: "host \<Rightarrow> string option \<Rightarrow> run_exn + bool" where
  "macos_check_installed h path =
     (case path of
        None \<Rightarrow> global_check h
      | Some p \<Rightarrow>
          if p \<noteq> [] \<and> path_exists h p then
            let missing = filter (\<lambda>binary. \<not> (path_exists h (path_join p binary)
                                   \<and> access_x h (path_join p binary))) binaries in
            if missing \<noteq> [] then Inr False
            else health_loop h (map (path_join p) binaries)
          else global_check h)"

section \<open>The file system\<close>

text \<open>
  A path is the list of names that leads from the root to an entry: paths are taken as
  absolute and resolved, and there are no symbolic links. So \<^verbatim>\<open>os.path.join(p, name)\<close> is
  \<^term>\<open>p @ [name]\<close> and \<^verbatim>\<open>os.path.dirname(p)\<close> is \<^term>\<open>butlast p\<close>. An entry is a
  regular file with its mode and its content, or a directory. The store lists the entries;
  the root is always a directory. Permissions are not checked: an operation fails only
  for the shape of the store (a missing entry, a file where a directory is needed).
\<close>

type_synonym path = "string list"

datatype node = File nat string | Dir

type_synonym fs = "(path \<times> node) list"

definition entry :: "fs \<Rightarrow> path \<Rightarrow> node option" where
  "entry s p = (if p = [] then Some Dir else map_of s p)"

definition os_path_exists :: "fs \<Rightarrow> path \<Rightarrow> bool" where
  "os_path_exists s p \<longleftrightarrow> entry s p \<noteq> None"

definition os_path_isdir :: "fs \<Rightarrow> path \<Rightarrow> bool" where
  "os_path_isdir s p \<longleftrightarrow> entry s p = Some Dir"

definition dirname :: "path \<Rightarrow> path" where
  "dirname p = butlast p"


definition os_mkdir :: "path \<Rightarrow> fs \<Rightarrow> exn + fs" where
  "os_mkdir p s =
     (if os_path_exists s p then Inl FileExistsError
      else case entry s (butlast p) of
             None \<Rightarrow> Inl FileNotFoundError
           | Some (File m c) \<Rightarrow> Inl NotADirectoryError
           | Some Dir \<Rightarrow> Inr (AList.update p Dir s))"

text \<open>
  \<^verbatim>\<open>os.makedirs(name, exist_ok=True)\<close>: create the parent first when it does not exist
  (a \<^verbatim>\<open>FileExistsError\<close> from there is passed over), then \<^verbatim>\<open>mkdir(name)\<close>, whose error
  is dropped when \<^verbatim>\<open>name\<close> is a directory.
\<close>

function os_makedirs :: "path \<Rightarrow> fs \<Rightarrow> exn + fs" where
  "os_makedirs p s =
     (if p = [] then Inr s
      else
        case (if \<not> os_path_exists s (butlast p)
              then (case os_makedirs (butlast p) s of
                      Inl e \<Rightarrow> if e = FileExistsError then Inr s else Inl e
                    | Inr s1 \<Rightarrow> Inr s1)
              else Inr s) of
          Inl e \<Rightarrow> Inl e
        | Inr s1 \<Rightarrow>
            (case os_mkdir p s1 of
               Inr s2 \<Rightarrow> Inr s2
             | Inl e \<Rightarrow> if os_path_isdir s1 p then Inr s1 else Inl e))"
  by pat_completeness auto
termination
  by (relation "measure (\<lambda>(p, s). length p)") auto

declare os_makedirs.simps [simp del]

text \<open>
  \<^verbatim>\<open>os.rename\<close> of a regular file: the destination's parent must be a directory and
  the destination must not be one; a file at the destination is replaced. \<^verbatim>\<open>os.walk\<close>
  hands only entries that are not directories to the move, and nothing in the loop makes
  a directory where such an entry is, so renaming a directory is left as an error.
\<close>

definition os_rename :: "path \<Rightarrow> path \<Rightarrow> fs \<Rightarrow> exn + fs" where
  "os_rename src dst s =
     (case entry s src of
        None \<Rightarrow> Inl FileNotFoundError
      | Some Dir \<Rightarrow> Inl IsADirectoryError
      | Some (File m c) \<Rightarrow>
          if src = dst then Inr s
          else case entry s (butlast dst) of
                 None \<Rightarrow> Inl FileNotFoundError
               | Some (File m' c') \<Rightarrow> Inl NotADirectoryError
               | Some Dir \<Rightarrow>
                   if entry s dst = Some Dir then Inl IsADirectoryError
                   else Inr (AList.update dst (File m c) (AList.delete src s)))"

text \<open>
  \<^verbatim>\<open>shutil.move(src, dst)\<close>: when \<^verbatim>\<open>dst\<close> is a directory the file goes inside it, under
  its own name, unless that name is taken there; otherwise it is renamed to \<^verbatim>\<open>dst\<close>.
  When the rename fails, the copy that \<^verbatim>\<open>shutil.move\<close> falls back to fails for the same
  reason.
\<close>

definition shutil_move :: "path \<Rightarrow> path \<Rightarrow> fs \<Rightarrow> exn + fs" where
  "shutil_move src dst s =
     (if os_path_isdir s dst then
        if src = dst then os_rename src dst s
        else
          let real_dst = dst @ [last src] in
          if os_path_exists s real_dst
          then Inl ShutilError
          else os_rename src real_dst s
      else os_rename src dst s)"

definition os_chmod :: "path \<Rightarrow> nat \<Rightarrow> fs \<Rightarrow> exn + fs" where
  "os_chmod p mode s =
     (case entry s p of
        None \<Rightarrow> Inl FileNotFoundError
      | Some Dir \<Rightarrow> Inr s
      | Some (File m c) \<Rightarrow> Inr (AList.update p (File mode c) s))"

definition os_remove :: "path \<Rightarrow> fs \<Rightarrow> exn + fs" where
  "os_remove p s =
     (case entry s p of
        None \<Rightarrow> Inl FileNotFoundError
      | Some Dir \<Rightarrow> Inl IsADirectoryError
      | Some (File m c) \<Rightarrow> Inr (AList.delete p s))"

definition shutil_rmtree :: "path \<Rightarrow> fs \<Rightarrow> exn + fs" where
  "shutil_rmtree p s =
     (case entry s p of
        None \<Rightarrow> Inl FileNotFoundError
      | Some (File m c) \<Rightarrow> Inl NotADirectoryError
      | Some Dir \<Rightarrow> Inr (filter (\<lambda>(q, n). \<not> prefix p q) s))"

text \<open>
  \<^verbatim>\<open>os.walk(start)\<close> yields nothing when \<^verbatim>\<open>start\<close> is not a directory; otherwise it
  yields \<^verbatim>\<open>start\<close> and every directory below it, each with the names of the entries
  directly inside that are not directories. The directories come in the order of the
  store. The walk is taken over the store as it is when the loop starts: the loop body
  only takes files out of directories that are already listed and puts entries below the
  installation path.
\<close>

definition files_in :: "fs \<Rightarrow> path \<Rightarrow> string list" where
  "files_in s d = [last q. (q, n) \<leftarrow> s, n \<noteq> Dir, q \<noteq> [], butlast q = d]"

definition dirs_below :: "fs \<Rightarrow> path \<Rightarrow> path list" where
  "dirs_below s start = [q. (q, n) \<leftarrow> s, n = Dir, q \<noteq> [], prefix start q, q \<noteq> start]"

definition os_walk :: "fs \<Rightarrow> path \<Rightarrow> (path \<times> string list) list" where
  "os_walk s start =
     (if os_path_isdir s start
      then (start, files_in s start) # map (\<lambda>d. (d, files_in s d)) (dirs_below s start)
      else [])"

section \<open>Uninstalling\<close>

fun uninstall_loop :: "path \<Rightarrow> string list \<Rightarrow> fs \<Rightarrow> exn option \<times> fs" where
  "uninstall_loop install_path [] s = (None, s)"
| "uninstall_loop install_path (dir # dirs) s =
     (let dir_path = install_path @ [dir] in
      if os_path_exists s dir_path then
        (case shutil_rmtree dir_path s of
           Inl e \<Rightarrow> (Some e, s)
         | Inr s1 \<Rightarrow> uninstall_loop install_path dirs s1)
      else uninstall_loop install_path dirs s)"

text \<open>
  \<^verbatim>\<open>uninstall\<close> is the same method in both handlers. The result is the exception
  that leaves the method, if any, and the store afterwards.
\<close>

definition uninstall :: "path \<Rightarrow> fs \<Rightarrow> exn option \<times> fs" where
  "uninstall install_path s = uninstall_loop install_path [''bin'', ''lib''] s"

section \<open>Installing\<close>

text \<open>
  The archive readers are not part of the handlers. \<^verbatim>\<open>tarfile\<close> is given by what
  opening the archive and \<^verbatim>\<open>getmembers()\<close> return (the members' names, or an
  exception) and by what \<^verbatim>\<open>extractall(path, members)\<close> does to the store;
  \<^verbatim>\<open>zipfile\<close> by \<^verbatim>\<open>infolist()\<close> and \<^verbatim>\<open>extract(member, path)\<close>.
\<close>

record tar_lib =
  tar_getmembers :: "fs \<Rightarrow> path \<Rightarrow> exn + string list"
  tar_extractall :: "path \<Rightarrow> string list \<Rightarrow> fs \<Rightarrow> exn option \<times> fs"

record zip_lib =
  zip_infolist :: "fs \<Rightarrow> path \<Rightarrow> exn + string list"
  zip_extract :: "path \<Rightarrow> string \<Rightarrow> fs \<Rightarrow> exn option \<times> fs"

text \<open>
  \<^verbatim>\<open>pathlib.Path(root).relative_to(extracted_dir).name\<close>: the last name of \<^verbatim>\<open>root\<close>
  below \<^verbatim>\<open>extracted_dir\<close>, and the empty string for \<^verbatim>\<open>extracted_dir\<close> itself.
\<close>

definition relative_name :: "path \<Rightarrow> path \<Rightarrow> string" where
  "relative_name extracted_dir root =
     (let rel = drop (length extracted_dir) root in if rel = [] then [] else last rel)"

text \<open>
  The loop over \<^verbatim>\<open>files\<close>; for \<^verbatim>\<open>bin\<close> each moved file gets mode
  \<^verbatim>\<open>0o755\<close> (493), for \<^verbatim>\<open>lib\<close> it does not.
\<close>

fun move_files :: "bool \<Rightarrow> path \<Rightarrow> path \<Rightarrow> string list \<Rightarrow> fs \<Rightarrow> exn option \<times> fs" where
  "move_files make_executable root dest [] s = (None, s)"
| "move_files make_executable root dest (file # files) s =
     (let src = root @ [file]; dst = dest @ [file] in
      case shutil_move src dst s of
        Inl e \<Rightarrow> (Some e, s)
      | Inr s1 \<Rightarrow>
          if make_executable then
            (case os_chmod dst 493 s1 of
               Inl e \<Rightarrow> (Some e, s1)
             | Inr s2 \<Rightarrow> move_files make_executable root dest files s2)
          else move_files make_executable root dest files s1)"

fun walk_loop :: "path \<Rightarrow> path \<Rightarrow> (path \<times> string list) list \<Rightarrow> fs \<Rightarrow> exn option \<times> fs" where
  "walk_loop extracted_dir install_path [] s = (None, s)"
| "walk_loop extracted_dir install_path ((root, files) # rest) s =
     (let subdir = relative_name extracted_dir root in
      if subdir = ''bin'' \<or> subdir = ''lib'' then
        (case os_makedirs (install_path @ [subdir]) s of
           Inl e \<Rightarrow> (Some e, s)
         | Inr s1 \<Rightarrow>
             (case move_files (subdir = ''bin'') root (install_path @ [subdir]) files s1 of
                (Some e, s2) \<Rightarrow> (Some e, s2)
              | (None, s2) \<Rightarrow> walk_loop extracted_dir install_path rest s2))
      else walk_loop extracted_dir install_path rest s)"

definition move_phase :: "path \<Rightarrow> path \<Rightarrow> fs \<Rightarrow> exn option \<times> fs" where
  "move_phase extracted_dir install_path s =
     walk_loop extracted_dir install_path (os_walk s extracted_dir) s"


text \<open>Removing the archive when it is still there.\<close>

definition clean_up :: "path \<Rightarrow> fs \<Rightarrow> exn option \<times> fs" where
  "clean_up download_path s =
     (if os_path_exists s download_path then
        (case os_remove download_path s of
           Inl e \<Rightarrow> (Some e, s)
         | Inr s1 \<Rightarrow> (None, s1))
      else (None, s))"

definition move_and_clean_up :: "path \<Rightarrow> path \<Rightarrow> fs \<Rightarrow> exn option \<times> fs" where
  "move_and_clean_up download_path install_path s =
     (case move_phase (dirname download_path) install_path s of
        (Some e, s1) \<Rightarrow> (Some e, s1)
      | (None, s1) \<Rightarrow> clean_up download_path s1)"

text \<open>
  \<^verbatim>\<open>except Exception as e: raise RuntimeError(f"Failed to install FFmpeg: {e}")\<close>.
\<close>

fun wrap_install_error :: "exn option \<times> fs \<Rightarrow> exn option \<times> fs" where
  "wrap_install_error (None, s) = (None, s)"
| "wrap_install_error (Some e, s) =
     (Some (case str e of
              Some m \<Rightarrow> RuntimeError (''Failed to install FFmpeg: '' @ m)
            | None \<Rightarrow> InstallFailed e), s)"

definition linux_install :: "tar_lib \<Rightarrow> path \<Rightarrow> path \<Rightarrow> fs \<Rightarrow> exn option \<times> fs" where
  "linux_install tar download_path install_path s =
     wrap_install_error
       (case tar_getmembers tar s download_path of
          Inl e \<Rightarrow> (Some e, s)
        | Inr names \<Rightarrow>
            let members = collect_members [] names in
            if members = [] then (Some (RuntimeError ''No FFmpeg binaries found in archive''), s)
            else
              (case tar_extractall tar (dirname download_path) members s of
                 (Some e, s1) \<Rightarrow> (Some e, s1)
               | (None, s1) \<Rightarrow> move_and_clean_up download_path install_path s1))"

text \<open>The macOS loop over \<^verbatim>\<open>infolist()\<close>, extracting each selected member.\<close>

fun zip_extract_loop :: "zip_lib \<Rightarrow> path \<Rightarrow> string list \<Rightarrow> fs \<Rightarrow> exn option \<times> fs" where
  "zip_extract_loop zf dir [] s = (None, s)"
| "zip_extract_loop zf dir (filename # rest) s =
     (if selected filename then
        (case zip_extract zf dir filename s of
           (Some e, s1) \<Rightarrow> (Some e, s1)
         | (None, s1) \<Rightarrow> zip_extract_loop zf dir rest s1)
      else zip_extract_loop zf dir rest s)"


text \<open>
  \<^verbatim>\<open>MacOSHandler.install\<close> makes the installation directory before the
  \<^verbatim>\<open>try\<close>, so an exception from there is not wrapped.
\<close>

definition macos_install :: "zip_lib \<Rightarrow> path \<Rightarrow> path \<Rightarrow> fs \<Rightarrow> exn option \<times> fs" where
  "macos_install zf download_path install_path s =
     (case os_makedirs install_path s of
        Inl e \<Rightarrow> (Some e, s)
      | Inr s0 \<Rightarrow>
          wrap_install_error
            (case zip_infolist zf s0 download_path of
               Inl e \<Rightarrow> (Some e, s0)
             | Inr names \<Rightarrow>
                 (case zip_extract_loop zf (dirname download_path) names s0 of
                    (Some e, s1) \<Rightarrow> (Some e, s1)
                  | (None, s1) \<Rightarrow> move_and_clean_up download_path install_path s1)))"

section \<open>Example hosts\<close>

text \<open>
  Two hosts to run the checks on: one with three working binaries in
  \<^verbatim>\<open>/opt/ffmpeg\<close> and none on the search path, and one with the three commands on the
  search path only.
\<close>

definition installed_paths :: "string list" where
  "installed_paths =
     [''/opt/ffmpeg'', ''/opt/ffmpeg/ffmpeg'', ''/opt/ffmpeg/ffprobe'', ''/opt/ffmpeg/ffplay'']"

definition host_with_local_install :: host where
  "host_with_local_install =
     \<lparr>path_exists = (\<lambda>p. p \<in> set installed_paths),
      access_x = (\<lambda>p. p \<in> set installed_paths),
      run = (\<lambda>argv. if argv \<in> set (map (\<lambda>p. [p, ''-version'']) installed_paths)
                      then Inr 0 else Inl LaunchOSError)\<rparr>"

definition host_with_global_install :: host where
  "host_with_global_install =
     \<lparr>path_exists = (\<lambda>p. False),
      access_x = (\<lambda>p. False),
      run = (\<lambda>argv. if argv \<in> set [[''ffmpeg'', ''-version''], [''ffprobe'', ''-version''],
                                         [''ffplay'', ''-version'']]
                      then Inr 0 else Inl LaunchOSError)\<rparr>"

section \<open>Example archives and stores\<close>

text \<open>
  A small archive reader to run the installers on: an archive is the list of its
  members' names, reading it needs a regular file at the download path, and extracting a
  member makes the directories of its name below the target directory and writes a file
  of mode \<^verbatim>\<open>0o644\<close> (420) there, whose content is the member's name.
\<close>

fun split_slash :: "string \<Rightarrow> string \<Rightarrow> path" where
  "split_slash acc [] = [acc]"
| "split_slash acc (c # cs) =
     (if c = CHR ''/'' then acc # split_slash [] cs else split_slash (acc @ [c]) cs)"

definition demo_extract :: "path \<Rightarrow> string \<Rightarrow> fs \<Rightarrow> exn option \<times> fs" where
  "demo_extract dir name s =
     (let comps = filter (\<lambda>c. c \<noteq> []) (split_slash [] name) in
      case os_makedirs (dir @ butlast comps) s of
        Inl e \<Rightarrow> (Some e, s)
      | Inr s1 \<Rightarrow> (None, AList.update (dir @ comps) (File 420 name) s1))"

fun demo_extractall :: "path \<Rightarrow> string list \<Rightarrow> fs \<Rightarrow> exn option \<times> fs" where
  "demo_extractall dir [] s = (None, s)"
| "demo_extractall dir (m # ms) s =
     (case demo_extract dir m s of
        (Some e, s1) \<Rightarrow> (Some e, s1)
      | (None, s1) \<Rightarrow> demo_extractall dir ms s1)"

definition demo_members :: "string list \<Rightarrow> fs \<Rightarrow> path \<Rightarrow> exn + string list" where
  "demo_members names s p =
     (case entry s p of
        Some (File m c) \<Rightarrow> Inr names
      | Some Dir \<Rightarrow> Inl IsADirectoryError
      | None \<Rightarrow> Inl FileNotFoundError)"

definition demo_tar :: "string list \<Rightarrow> tar_lib" where
  "demo_tar names = \<lparr>tar_getmembers = demo_members names, tar_extractall = demo_extractall\<rparr>"

definition demo_zip :: "string list \<Rightarrow> zip_lib" where
  "demo_zip names = \<lparr>zip_infolist = demo_members names, zip_extract = demo_extract\<rparr>"

text \<open>
  A store with the downloaded archive in \<^verbatim>\<open>/tmp/dl\<close>, next to a directory
  \<^verbatim>\<open>old/bin\<close> with one file of mode \<^verbatim>\<open>0o600\<close> (384) that is there before any
  installation, and an empty \<^verbatim>\<open>/opt\<close>.
\<close>

definition demo_download :: path where
  "demo_download = [''tmp'', ''dl'', ''ffmpeg.archive'']"

definition demo_fs :: fs where
  "demo_fs =
     [([''tmp''], Dir),
      ([''tmp'', ''dl''], Dir),
      ([''tmp'', ''dl'', ''ffmpeg.archive''], File 420 ''archive''),
      ([''tmp'', ''dl'', ''old''], Dir),
      ([''tmp'', ''dl'', ''old'', ''bin''], Dir),
      ([''tmp'', ''dl'', ''old'', ''bin'', ''stale''], File 384 ''stale''),
      ([''opt''], Dir)]"

text \<open>A store with an installation in \<^verbatim>\<open>/opt/ffmpeg\<close> and a file beside it.\<close>

definition installed_fs :: fs where
  "installed_fs =
     [([''opt''], Dir),
      ([''opt'', ''ffmpeg''], Dir),
      ([''opt'', ''ffmpeg'', ''bin''], Dir),
      ([''opt'', ''ffmpeg'', ''bin'', ''ffmpeg''], File 493 ''ffmpeg''),
      ([''opt'', ''ffmpeg'', ''lib''], Dir),
      ([''opt'', ''ffmpeg'', ''lib'', ''pkgconfig''], Dir),
      ([''opt'', ''ffmpeg'', ''lib'', ''pkgconfig'', ''libavcodec.pc''], File 420 ''pc''),
      ([''opt'', ''ffmpeg'', ''license.txt''], File 420 ''license'')]"




section \<open>Properties of the download URL\<close>

text \<open>
  C1, as the code has it. \<^verbatim>\<open>LinuxHandler\<close>: a machine name that is \<^verbatim>\<open>x86_64\<close> or
  \<^verbatim>\<open>amd64\<close> in any letter case gives a URL that contains \<^verbatim>\<open>linux64\<close> and ends in
  \<^verbatim>\<open>.tar.xz\<close>; \<^verbatim>\<open>aarch64\<close> or \<^verbatim>\<open>arm64\<close> in any letter case gives one that contains
  \<^verbatim>\<open>linuxarm64\<close> and ends in \<^verbatim>\<open>.tar.xz\<close>; every other name raises a
  \<^verbatim>\<open>RuntimeError\<close> whose message ends with the lower-cased name. \<^verbatim>\<open>MacOSHandler\<close>:
  exactly \<^verbatim>\<open>x86_64\<close> and \<^verbatim>\<open>arm64\<close> give a URL that contains that name and ends in
  \<^verbatim>\<open>.zip\<close>; every other string, \<^verbatim>\<open>amd64\<close>, \<^verbatim>\<open>aarch64\<close> and other letter cases
  among them, raises a \<^verbatim>\<open>RuntimeError\<close> whose message ends with the string.
\<close>

theorem get_download_url_by_architecture:
  "(lower machine \<in> {''x86_64'', ''amd64''} \<longrightarrow>
      (\<exists>url. linux_get_download_url machine = Inr url
             \<and> sublist ''linux64'' url \<and> suffix ''.tar.xz'' url))
   \<and> (lower machine \<in> {''aarch64'', ''arm64''} \<longrightarrow>
      (\<exists>url. linux_get_download_url machine = Inr url
             \<and> sublist ''linuxarm64'' url \<and> suffix ''.tar.xz'' url))
   \<and> (lower machine \<notin> {''x86_64'', ''amd64'', ''aarch64'', ''arm64''} \<longrightarrow>
      linux_get_download_url machine =
        Inl (RuntimeError (''Unsupported Linux architecture: '' @ lower machine)))
   \<and> (machine = ''x86_64'' \<longrightarrow>
      (\<exists>url. macos_get_download_url machine = Inr url
             \<and> sublist ''x86_64'' url \<and> suffix ''.zip'' url))
   \<and> (machine = ''arm64'' \<longrightarrow>
      (\<exists>url. macos_get_download_url machine = Inr url
             \<and> sublist ''arm64'' url \<and> suffix ''.zip'' url))
   \<and> (machine \<notin> {''x86_64'', ''arm64''} \<longrightarrow>
      macos_get_download_url machine =
        Inl (RuntimeError (''Unsupported macOS architecture: '' @ machine)))"
proof -
  have l64: "sublist ''linux64'' (base_url @ ''/ffmpeg-master-latest-linux64-gpl-shared.tar.xz'')"
    by (simp add: base_url_def sublist_code)
  have la64: "sublist ''linuxarm64'' (base_url @ ''/ffmpeg-master-latest-linuxarm64-gpl-shared.tar.xz'')"
    by (simp add: base_url_def sublist_code)
  have lx: "suffix ''.tar.xz'' (base_url @ ''/ffmpeg-master-latest-linux64-gpl-shared.tar.xz'')"
    "suffix ''.tar.xz'' (base_url @ ''/ffmpeg-master-latest-linuxarm64-gpl-shared.tar.xz'')"
    by (simp_all add: suffix_def)
  have m64: "sublist ''x86_64'' ''https://github.com/ColorsWind/FFmpeg-macOS/releases/download/n5.0.1-patch3/FFmpeg_shared-n5.0.1-OSX-x86_64.zip''"
    by (simp add: sublist_code)
  have ma64: "sublist ''arm64'' ''https://github.com/ColorsWind/FFmpeg-macOS/releases/download/n5.0.1-patch3/FFmpeg-shared-n5.0.1-OSX-arm64.zip''"
    by (simp add: sublist_code)
  have mz: "suffix ''.zip'' ''https://github.com/ColorsWind/FFmpeg-macOS/releases/download/n5.0.1-patch3/FFmpeg_shared-n5.0.1-OSX-x86_64.zip''"
    "suffix ''.zip'' ''https://github.com/ColorsWind/FFmpeg-macOS/releases/download/n5.0.1-patch3/FFmpeg-shared-n5.0.1-OSX-arm64.zip''"
    by (simp_all add: suffix_def)
  have linux_x86: "lower machine \<in> {''x86_64'', ''amd64''} \<Longrightarrow>
      linux_get_download_url machine =
        Inr (base_url @ ''/ffmpeg-master-latest-linux64-gpl-shared.tar.xz'')"
    by (auto simp: linux_get_download_url_def)
  have linux_arm: "lower machine \<in> {''aarch64'', ''arm64''} \<Longrightarrow>
      linux_get_download_url machine =
        Inr (base_url @ ''/ffmpeg-master-latest-linuxarm64-gpl-shared.tar.xz'')"
    by (auto simp: linux_get_download_url_def)
  have linux_other: "lower machine \<notin> {''x86_64'', ''amd64'', ''aarch64'', ''arm64''} \<Longrightarrow>
      linux_get_download_url machine =
        Inl (RuntimeError (''Unsupported Linux architecture: '' @ lower machine))"
    by (simp add: linux_get_download_url_def)
  have mac_x86: "machine = ''x86_64'' \<Longrightarrow> macos_get_download_url machine =
      Inr ''https://github.com/ColorsWind/FFmpeg-macOS/releases/download/n5.0.1-patch3/FFmpeg_shared-n5.0.1-OSX-x86_64.zip''"
    by (simp add: macos_get_download_url_def)
  have mac_arm: "machine = ''arm64'' \<Longrightarrow> macos_get_download_url machine =
      Inr ''https://github.com/ColorsWind/FFmpeg-macOS/releases/download/n5.0.1-patch3/FFmpeg-shared-n5.0.1-OSX-arm64.zip''"
    by (simp add: macos_get_download_url_def)
  have mac_other: "machine \<notin> {''x86_64'', ''arm64''} \<Longrightarrow> macos_get_download_url machine =
      Inl (RuntimeError (''Unsupported macOS architecture: '' @ machine))"
    by (simp add: macos_get_download_url_def)
  show ?thesis
    using l64 la64 lx m64 ma64 mz linux_x86 linux_arm linux_other mac_x86 mac_arm mac_other
    by blast
qed

theorem get_download_url_by_architecture_witness:
  "(\<exists>url. linux_get_download_url ''AMD64'' = Inr url
          \<and> sublist ''linux64'' url \<and> suffix ''.tar.xz'' url)
   \<and> macos_get_download_url ''AMD64'' =
       Inl (RuntimeError ''Unsupported macOS architecture: AMD64'')"
proof -
  have "lower ''AMD64'' \<in> {''x86_64'', ''amd64''}"
    by code_simp
  moreover have "''AMD64'' \<notin> {''x86_64'', ''arm64''}"
    by simp
  ultimately show ?thesis
    using get_download_url_by_architecture [of "''AMD64''"] by simp
qed

text \<open>
  C1 as it is written fails for \<^verbatim>\<open>MacOSHandler\<close>: \<^verbatim>\<open>amd64\<close> and \<^verbatim>\<open>aarch64\<close> are
  among the recognised names of the claim, and the macOS handler raises for both.
\<close>

theorem macos_get_download_url_rejects_aliases:
  "macos_get_download_url ''amd64'' =
     Inl (RuntimeError ''Unsupported macOS architecture: amd64'')
   \<and> macos_get_download_url ''aarch64'' =
     Inl (RuntimeError ''Unsupported macOS architecture: aarch64'')
   \<and> macos_get_download_url ''ARM64'' =
     Inl (RuntimeError ''Unsupported macOS architecture: ARM64'')"
  by (simp add: macos_get_download_url_def)

section \<open>Properties of the check\<close>

lemma caught_all: "caught e"
  by (cases e) simp_all

lemma health_loop_eq:
  "health_loop h cmds = Inr (\<forall>c\<in>set cmds. run h [c, ''-version''] = Inr 0)"
  by (induction cmds) (auto simp: caught_all split: sum.splits)

lemma global_check_three:
  "global_check h =
     Inr (run h [''ffmpeg'', ''-version''] = Inr 0
          \<and> run h [''ffprobe'', ''-version''] = Inr 0
          \<and> run h [''ffplay'', ''-version''] = Inr 0)"
  by (simp add: global_check_def health_loop_eq binaries_def)

lemma macos_check_global:
  "path = None \<or> path = Some [] \<or> (\<exists>p. path = Some p \<and> \<not> path_exists h p) \<Longrightarrow>
   macos_check_installed h path = global_check h"
  by (auto simp: macos_check_installed_def)

text \<open>
  C3 at a path that is given and does not exist. On a host where \<^verbatim>\<open>/opt/ffmpeg\<close> does
  not exist, so that none of \<^verbatim>\<open>ffmpeg\<close>, \<^verbatim>\<open>ffprobe\<close>, \<^verbatim>\<open>ffplay\<close> is at that path,
  and where the three commands are on the search path, \<^verbatim>\<open>MacOSHandler.check_installed\<close>
  of \<^verbatim>\<open>/opt/ffmpeg\<close> returns true: the test \<^verbatim>\<open>path and os.path.exists(path)\<close> fails and
  the method goes on to the check it has for the case that no path is given.
  \<^verbatim>\<open>LinuxHandler.check_installed\<close> returns false there.
\<close>

theorem macos_check_installed_true_without_binaries:
  "macos_check_installed host_with_global_install (Some ''/opt/ffmpeg'') = Inr True
   \<and> \<not> path_exists host_with_global_install ''/opt/ffmpeg''
   \<and> \<not> path_exists host_with_global_install (path_join ''/opt/ffmpeg'' ''ffmpeg'')
   \<and> \<not> path_exists host_with_global_install (path_join ''/opt/ffmpeg'' ''ffprobe'')
   \<and> \<not> path_exists host_with_global_install (path_join ''/opt/ffmpeg'' ''ffplay'')
   \<and> linux_check_installed host_with_global_install (Some ''/opt/ffmpeg'') = Inr False"
  by (simp add: macos_check_installed_def linux_check_installed_def global_check_def
      host_with_global_install_def binaries_def)

text \<open>
  C4. \<^verbatim>\<open>MacOSHandler.check_installed\<close> with a path that is not empty and does not
  exist runs the bare commands \<^verbatim>\<open>ffmpeg\<close>, \<^verbatim>\<open>ffprobe\<close>, \<^verbatim>\<open>ffplay\<close> with
  \<^verbatim>\<open>-version\<close> and returns true exactly when all three exit with code zero; the path
  has no part in the result.
\<close>

theorem macos_check_installed_missing_path:
  assumes "p \<noteq> []" and "\<not> path_exists h p"
  shows "macos_check_installed h (Some p) =
           Inr (run h [''ffmpeg'', ''-version''] = Inr 0
                \<and> run h [''ffprobe'', ''-version''] = Inr 0
                \<and> run h [''ffplay'', ''-version''] = Inr 0)"
proof -
  from assms have "macos_check_installed h (Some p) = global_check h"
    by (intro macos_check_global) simp
  then show ?thesis by (simp only: global_check_three)
qed

theorem macos_check_installed_missing_path_witness:
  "macos_check_installed host_with_global_install (Some ''/opt/ffmpeg'') = Inr True
   \<and> macos_check_installed host_with_local_install (Some ''/missing'') = Inr False"
  using macos_check_installed_missing_path [of "''/opt/ffmpeg''" host_with_global_install]
    macos_check_installed_missing_path [of "''/missing''" host_with_local_install]
  by (simp add: host_with_global_install_def host_with_local_install_def installed_paths_def)

text \<open>
  C7 at a path that is given and does not exist. On the host whose only
  \<^verbatim>\<open>ffmpeg\<close>, \<^verbatim>\<open>ffprobe\<close>, \<^verbatim>\<open>ffplay\<close> are the commands on the search path, each of
  the three files is missing below \<^verbatim>\<open>/srv/tools\<close> and cannot be started from there, and
  \<^verbatim>\<open>MacOSHandler.check_installed\<close> of \<^verbatim>\<open>/srv/tools\<close> still returns true: the missing
  files are not turned into the value false. No exception leaves the method, and
  \<^verbatim>\<open>LinuxHandler.check_installed\<close> returns false.
\<close>

theorem macos_check_installed_missing_files_not_false:
  "macos_check_installed host_with_global_install (Some ''/srv/tools'') = Inr True
   \<and> \<not> path_exists host_with_global_install ''/srv/tools/ffmpeg''
   \<and> \<not> path_exists host_with_global_install ''/srv/tools/ffprobe''
   \<and> \<not> path_exists host_with_global_install ''/srv/tools/ffplay''
   \<and> run host_with_global_install [''/srv/tools/ffmpeg'', ''-version''] = Inl LaunchOSError
   \<and> run host_with_global_install [''/srv/tools/ffprobe'', ''-version''] = Inl LaunchOSError
   \<and> run host_with_global_install [''/srv/tools/ffplay'', ''-version''] = Inl LaunchOSError
   \<and> path_join ''/srv/tools'' ''ffmpeg'' = ''/srv/tools/ffmpeg''
   \<and> linux_check_installed host_with_global_install (Some ''/srv/tools'') = Inr False"
  by (simp add: macos_check_installed_def linux_check_installed_def global_check_def
      host_with_global_install_def binaries_def path_join_def suffix_def)

section \<open>Properties of the file system\<close>

lemma entry_root [simp]: "entry s [] = Some Dir"
  by (simp add: entry_def)



lemma map_of_filter_key:
  "map_of (filter (\<lambda>(q, n). P q) s) p = (if P p then map_of s p else None)"
  by (induction s) auto

lemma entry_rmtree:
  "d \<noteq> [] \<Longrightarrow> entry (filter (\<lambda>(q, n). \<not> prefix d q) s) p = (if prefix d p then None else entry s p)"
  by (auto simp: entry_def map_of_filter_key)







section \<open>Properties of uninstalling and installing\<close>

lemma uninstall_step:
  "uninstall_loop ip (d # ds) s =
     (if entry s (ip @ [d]) = None then uninstall_loop ip ds s
      else if entry s (ip @ [d]) = Some Dir
      then uninstall_loop ip ds (filter (\<lambda>(q, n). \<not> prefix (ip @ [d]) q) s)
      else (Some NotADirectoryError, s))"
  by (auto simp: os_path_exists_def shutil_rmtree_def Let_def
      split: option.splits node.splits)

lemma uninstall_effect:
  assumes b: "entry s (ip @ [''bin'']) = None \<or> entry s (ip @ [''bin'']) = Some Dir"
    and l: "entry s (ip @ [''lib'']) = None \<or> entry s (ip @ [''lib'']) = Some Dir"
  shows "\<exists>s'. uninstall ip s = (None, s')
           \<and> (\<forall>p. entry s' p =
                 (if (entry s (ip @ [''bin'']) = Some Dir \<and> prefix (ip @ [''bin'']) p)
                     \<or> (entry s (ip @ [''lib'']) = Some Dir \<and> prefix (ip @ [''lib'']) p)
                  then None else entry s p))
           \<and> (entry s (ip @ [''bin'']) = None \<and> entry s (ip @ [''lib'']) = None \<longrightarrow> s' = s)"
proof -
  define s1 where "s1 = (if entry s (ip @ [''bin'']) = Some Dir
                         then filter (\<lambda>(q, n). \<not> prefix (ip @ [''bin'']) q) s else s)"
  define s2 where "s2 = (if entry s (ip @ [''lib'']) = Some Dir
                         then filter (\<lambda>(q, n). \<not> prefix (ip @ [''lib'']) q) s1 else s1)"
  have e1: "entry s1 p = (if entry s (ip @ [''bin'']) = Some Dir \<and> prefix (ip @ [''bin'']) p
                          then None else entry s p)" for p
    by (simp add: s1_def entry_rmtree)
  have lib1: "entry s1 (ip @ [''lib'']) = entry s (ip @ [''lib''])"
    by (simp add: e1)
  have e2: "entry s2 p = (if entry s (ip @ [''lib'']) = Some Dir \<and> prefix (ip @ [''lib'']) p
                          then None else entry s1 p)" for p
    by (simp add: s2_def entry_rmtree)
  have run1: "uninstall ip s = uninstall_loop ip [''lib''] s1"
    using b unfolding uninstall_def s1_def by (subst uninstall_step) auto
  have run2: "uninstall_loop ip [''lib''] s1 = (None, s2)"
    using l lib1 unfolding s2_def by (subst uninstall_step) auto
  have noop: "entry s (ip @ [''bin'']) = None \<and> entry s (ip @ [''lib'']) = None \<longrightarrow> s2 = s"
    by (simp add: s1_def s2_def)
  have all: "\<forall>p. entry s2 p =
                 (if (entry s (ip @ [''bin'']) = Some Dir \<and> prefix (ip @ [''bin'']) p)
                     \<or> (entry s (ip @ [''lib'']) = Some Dir \<and> prefix (ip @ [''lib'']) p)
                  then None else entry s p)"
    by (simp add: e1 e2)
  from run1 run2 all noop show ?thesis by simp
qed

























text \<open>
  C8. When each of \<^verbatim>\<open>bin\<close> and \<^verbatim>\<open>lib\<close> below the installation directory is a
  directory or is absent, \<^verbatim>\<open>uninstall\<close> returns without an exception; afterwards
  every entry at or below a \<^verbatim>\<open>bin\<close> or \<^verbatim>\<open>lib\<close> that was a directory is gone and
  every other entry of the store is as it was; when both are absent the store is the
  same store.
\<close>

theorem uninstall_removes_bin_and_lib_only:
  assumes "entry s (ip @ [''bin'']) = None \<or> entry s (ip @ [''bin'']) = Some Dir"
    and "entry s (ip @ [''lib'']) = None \<or> entry s (ip @ [''lib'']) = Some Dir"
  shows "\<exists>s'. uninstall ip s = (None, s')
           \<and> (\<forall>p. entry s' p =
                 (if (entry s (ip @ [''bin'']) = Some Dir \<and> prefix (ip @ [''bin'']) p)
                     \<or> (entry s (ip @ [''lib'']) = Some Dir \<and> prefix (ip @ [''lib'']) p)
                  then None else entry s p))
           \<and> (entry s (ip @ [''bin'']) = None \<and> entry s (ip @ [''lib'']) = None \<longrightarrow> s' = s)"
  using assms by (rule uninstall_effect)

theorem uninstall_removes_bin_and_lib_only_witness:
  "(\<exists>s'. uninstall [''opt'', ''ffmpeg''] installed_fs = (None, s')
      \<and> entry s' [''opt'', ''ffmpeg'', ''bin''] = None
      \<and> entry s' [''opt'', ''ffmpeg'', ''bin'', ''ffmpeg''] = None
      \<and> entry s' [''opt'', ''ffmpeg'', ''lib'', ''pkgconfig'', ''libavcodec.pc''] = None
      \<and> entry s' [''opt'', ''ffmpeg'', ''license.txt''] = Some (File 420 ''license'')
      \<and> entry s' [''opt'', ''ffmpeg''] = Some Dir)
   \<and> uninstall [''opt''] installed_fs = (None, installed_fs)"
proof -
  have bin: "entry installed_fs ([''opt'', ''ffmpeg''] @ [''bin'']) = Some Dir"
    and lib: "entry installed_fs ([''opt'', ''ffmpeg''] @ [''lib'']) = Some Dir"
    and lic: "entry installed_fs [''opt'', ''ffmpeg'', ''license.txt'']
                = Some (File 420 ''license'')"
    and top: "entry installed_fs [''opt'', ''ffmpeg''] = Some Dir"
    and nobin: "entry installed_fs ([''opt''] @ [''bin'']) = None"
    and nolib: "entry installed_fs ([''opt''] @ [''lib'']) = None"
    by (simp_all add: installed_fs_def entry_def)
  from uninstall_removes_bin_and_lib_only [of installed_fs "[''opt'', ''ffmpeg'']"] bin lib
  obtain s' where run: "uninstall [''opt'', ''ffmpeg''] installed_fs = (None, s')"
    and eff: "\<And>p. entry s' p =
                (if prefix [''opt'', ''ffmpeg'', ''bin''] p \<or> prefix [''opt'', ''ffmpeg'', ''lib''] p
                 then None else entry installed_fs p)"
    by auto
  have "entry s' [''opt'', ''ffmpeg'', ''bin''] = None"
    "entry s' [''opt'', ''ffmpeg'', ''bin'', ''ffmpeg''] = None"
    "entry s' [''opt'', ''ffmpeg'', ''lib'', ''pkgconfig'', ''libavcodec.pc''] = None"
    "entry s' [''opt'', ''ffmpeg'', ''license.txt''] = Some (File 420 ''license'')"
    "entry s' [''opt'', ''ffmpeg''] = Some Dir"
    by (simp_all add: eff lic top)
  with run have first: "\<exists>s'. uninstall [''opt'', ''ffmpeg''] installed_fs = (None, s')
      \<and> entry s' [''opt'', ''ffmpeg'', ''bin''] = None
      \<and> entry s' [''opt'', ''ffmpeg'', ''bin'', ''ffmpeg''] = None
      \<and> entry s' [''opt'', ''ffmpeg'', ''lib'', ''pkgconfig'', ''libavcodec.pc''] = None
      \<and> entry s' [''opt'', ''ffmpeg'', ''license.txt''] = Some (File 420 ''license'')
      \<and> entry s' [''opt'', ''ffmpeg''] = Some Dir"
    by blast
  from uninstall_removes_bin_and_lib_only [of installed_fs "[''opt'']"] nobin nolib
  have "uninstall [''opt''] installed_fs = (None, installed_fs)"
    by auto
  with first show ?thesis by blast
qed

text \<open>
  C2 on an archive whose only member is \<^verbatim>\<open>pkg/doc/readme\<close>, in the example store.
  \<^verbatim>\<open>LinuxHandler.install\<close> raises the error and leaves the store as it is.
  \<^verbatim>\<open>MacOSHandler.install\<close> has no test for an empty selection: it returns without
  an exception, and it has made \<^verbatim>\<open>/opt/ffmpeg\<close> and \<^verbatim>\<open>/opt/ffmpeg/bin\<close>, moved the
  file that was in \<^verbatim>\<open>/tmp/dl/old/bin\<close> there, and removed the archive.
\<close>

theorem macos_install_without_binaries_succeeds:
  "macos_install (demo_zip [''pkg/doc/readme'']) demo_download [''opt'', ''ffmpeg''] demo_fs =
     (None,
      [([''tmp''], Dir), ([''tmp'', ''dl''], Dir),
       ([''tmp'', ''dl'', ''old''], Dir),
       ([''tmp'', ''dl'', ''old'', ''bin''], Dir), ([''opt''], Dir),
       ([''opt'', ''ffmpeg''], Dir), ([''opt'', ''ffmpeg'', ''bin''], Dir),
       ([''opt'', ''ffmpeg'', ''bin'', ''stale''], File 493 ''stale'')])
   \<and> linux_install (demo_tar [''pkg/doc/readme'']) demo_download [''opt'', ''ffmpeg''] demo_fs =
     (Some (RuntimeError ''Failed to install FFmpeg: No FFmpeg binaries found in archive''),
      demo_fs)"
  by code_simp





section \<open>Properties of the move phase\<close>




























end
